theory Spec2Isabelle
  imports Complex_Main
begin

section \<open>Values and errors\<close>

text \<open>
  Python floats are modelled as real numbers together with one distinguished
  not-a-number value. Rounding, signed zeros and the overflow of a sum or a
  product to infinity are not modelled: arithmetic on finite values is exact
  real arithmetic. \<open>NaN\<close> is kept because the parameter code stores
  \<open>np.nan\<close> explicitly and the density code compares it with 0. The power
  \<open>10**p0\<close> is the one operation of the density code that raises on
  overflow, and it has its error path.
\<close>

datatype pyfloat = NaN | Fin real

datatype error =
    ValueError
  | IndexError
  | KeyError
  | UnboundLocalError
  | AssertionError
  | ZeroDivisionError
  | OverflowError
  | AttributeError

text \<open>\<open>r * x\<close> for a real \<open>r\<close> and a float \<open>x\<close>: a product with NaN is NaN.\<close>

fun fmul :: "real \<Rightarrow> pyfloat \<Rightarrow> pyfloat" where
  "fmul r NaN = NaN"
| "fmul r (Fin g) = Fin (r * g)"

section \<open>Profile functions (\<open>cell.py\<close>)\<close>

text \<open>
  The functions of this section are in \<open>src/src/msnmodel/cell.py\<close> and,
  with the same text, in \<open>src/msn/cell.py\<close>; the two files differ in one
  name of the axonal branch of \<open>get_channel_density\<close>, which is therefore
  modelled once for each file.
\<close>

text \<open>The largest finite float, \<open>(2 - 2**-52) * 2**1023\<close>.\<close>

definition float_max :: real where
  "float_max = 2 ^ 1024 - 2 ^ 971"

text \<open>
  \<open>10**p0\<close>: Python raises \<open>OverflowError\<close> when the power is too large
  for a float.
\<close>

definition pow10 :: "real \<Rightarrow> error + real" where
  "pow10 p0 = (if float_max < 10 powr p0 then Inl OverflowError else Inr (10 powr p0))"

text \<open>
  \<open>uniform_fun(distance, args, gbar)\<close>: \<open>p0 = args[0]; return 10**p0 * gbar\<close>.
  Indexing an empty list raises \<open>IndexError\<close>.
\<close>

fun uniform_fun :: "real \<Rightarrow> real list \<Rightarrow> pyfloat \<Rightarrow> error + pyfloat" where
  "uniform_fun distance [] gbar = Inl IndexError"
| "uniform_fun distance (p0 # rest) gbar =
     (case pow10 p0 of Inl e \<Rightarrow> Inl e | Inr t \<Rightarrow> Inr (fmul t gbar))"

text \<open>
  \<open>step_fun(distance, args, gbar)\<close>: \<open>p0, p1, p2, p3 = args\<close> raises
  \<open>ValueError\<close> unless \<open>args\<close> has exactly four elements.
\<close>

fun step_fun :: "real \<Rightarrow> real list \<Rightarrow> pyfloat \<Rightarrow> error + pyfloat" where
  "step_fun distance [p0, p1, p2, p3] gbar =
     (let v = (if distance > p2 \<and> distance < p3 then p0 else p1)
      in Inr (fmul v gbar))"
| "step_fun distance args gbar = Inl ValueError"

text \<open>
  The sigmoid term \<open>1 / (1 + exp((distance - p2) / p3))\<close> shared by the
  dendritic profiles. Python's float division raises on a zero divisor.
\<close>

definition sigm :: "real \<Rightarrow> real \<Rightarrow> real \<Rightarrow> real" where
  "sigm distance p2 p3 = 1 / (1 + exp ((distance - p2) / p3))"

text \<open>
  The block \<open>if compartment == 'dend':\<close> of \<open>get_channel_density\<close>, the
  same in both files. In each formula the power \<open>10**p0\<close> is evaluated
  before the quotient by \<open>p3\<close>, so an overflow is raised before a division
  by zero.
\<close>

definition dend_density :: "real \<Rightarrow> string \<Rightarrow> real list \<Rightarrow> pyfloat \<Rightarrow> error + pyfloat" where
  "dend_density distance mech args gbar =
        (if mech = ''naf'' then
           (case args of
              [p0, p1, p2, p3] \<Rightarrow>
                (case pow10 p0 of
                   Inl e \<Rightarrow> Inl e
                 | Inr t \<Rightarrow>
                     if p3 = 0 then Inl ZeroDivisionError
                     else Inr (fmul (t * (1 - p1 + p1 * sigm distance p2 p3)) gbar))
            | _ \<Rightarrow> Inl ValueError)
         else if mech = ''kaf'' then
           (case args of
              [p0, p1, p2, p3] \<Rightarrow>
                (case pow10 p0 of
                   Inl e \<Rightarrow> Inl e
                 | Inr t \<Rightarrow>
                     if p3 = 0 then Inl ZeroDivisionError
                     else Inr (fmul (t * (1 + p1 * sigm distance p2 p3)) gbar))
            | _ \<Rightarrow> Inl ValueError)
         else if mech = ''kas'' then
           (case args of
              [p0, p2, p3] \<Rightarrow>
                (case pow10 p0 of
                   Inl e \<Rightarrow> Inl e
                 | Inr t \<Rightarrow>
                     if p3 = 0 then Inl ZeroDivisionError
                     else Inr (fmul (t * (1 / 10 + (9 / 10) * sigm distance p2 p3)) gbar))
            | _ \<Rightarrow> Inl ValueError)
         else if mech = ''kir'' \<or> mech = ''sk'' then
           (case args of
              [] \<Rightarrow> Inl IndexError
            | p0 # _ \<Rightarrow>
                (case pow10 p0 of Inl e \<Rightarrow> Inl e | Inr t \<Rightarrow> Inr (fmul t gbar)))
         else if mech = ''can'' then
           (case args of
              [p0, p1, p2, p3] \<Rightarrow>
                (case pow10 p0 of
                   Inl e \<Rightarrow> Inl e
                 | Inr t \<Rightarrow>
                     if p3 = 0 then Inl ZeroDivisionError
                     else Inr (Fin (t * (1 - p1 + p1 * sigm distance p2 p3))))
            | _ \<Rightarrow> Inl ValueError)
         else if mech = ''cav32'' \<or> mech = ''cav33'' then
           (case args of
              [p0, p2, p3] \<Rightarrow>
                (case pow10 p0 of
                   Inl e \<Rightarrow> Inl e
                 | Inr t \<Rightarrow>
                     if p3 = 0 then Inl ZeroDivisionError
                     else Inr (Fin (t * sigm distance p2 p3)))
            | _ \<Rightarrow> Inl ValueError)
         else uniform_fun distance args gbar)"

text \<open>
  The branch of \<open>get_channel_density\<close> that computes \<open>density\<close>, before the
  assertion, in \<open>src/src/msnmodel/cell.py\<close>. A compartment/mechanism pair that
  no branch covers leaves the local variable unbound, which Python reports as
  \<open>UnboundLocalError\<close> at the assertion.
\<close>

definition raw_density ::
  "real \<Rightarrow> string \<times> string \<times> real list \<times> pyfloat \<Rightarrow> error + pyfloat" where
  "raw_density distance params =
    (case params of (compartment, mech, args, gbar) \<Rightarrow>
      if compartment = ''dend'' then dend_density distance mech args gbar
      else if compartment = ''axon'' then
        (if mech = ''kas'' \<or> mech = ''km'' then uniform_fun distance args gbar
         else if mech = ''naf'' then step_fun distance args gbar
         else Inl UnboundLocalError)
      else if compartment = ''soma'' then uniform_fun distance args gbar
      else Inl UnboundLocalError)"

text \<open>
  The same branch in \<open>src/msn/cell.py\<close>, where the axonal test is
  \<open>(mech == 'kas') or (mech == 'Im')\<close>.
\<close>

definition raw_density_msn ::
  "real \<Rightarrow> string \<times> string \<times> real list \<times> pyfloat \<Rightarrow> error + pyfloat" where
  "raw_density_msn distance params =
    (case params of (compartment, mech, args, gbar) \<Rightarrow>
      if compartment = ''dend'' then dend_density distance mech args gbar
      else if compartment = ''axon'' then
        (if mech = ''kas'' \<or> mech = ''Im'' then uniform_fun distance args gbar
         else if mech = ''naf'' then step_fun distance args gbar
         else Inl UnboundLocalError)
      else if compartment = ''soma'' then uniform_fun distance args gbar
      else Inl UnboundLocalError)"

text \<open>
  \<open>assert (density >= 0)\<close>: every comparison with NaN is false. A value
  that passes the assertion is not NaN, so the result is a real number.
\<close>

definition assert_nonneg :: "error + pyfloat \<Rightarrow> error + real" where
  "assert_nonneg density =
    (case density of
       Inl e \<Rightarrow> Inl e
     | Inr NaN \<Rightarrow> Inl AssertionError
     | Inr (Fin d) \<Rightarrow> if 0 \<le> d then Inr d else Inl AssertionError)"

text \<open>\<open>get_channel_density(distance, params)\<close> of \<open>src/src/msnmodel/cell.py\<close>.\<close>

definition get_channel_density ::
  "real \<Rightarrow> string \<times> string \<times> real list \<times> pyfloat \<Rightarrow> error + real" where
  "get_channel_density distance params = assert_nonneg (raw_density distance params)"

text \<open>\<open>get_channel_density(distance, params)\<close> of \<open>src/msn/cell.py\<close>.\<close>

definition get_channel_density_msn ::
  "real \<Rightarrow> string \<times> string \<times> real list \<times> pyfloat \<Rightarrow> error + real" where
  "get_channel_density_msn distance params = assert_nonneg (raw_density_msn distance params)"

text \<open>
  The inputs on which the density is claimed to be non-negative. \<open>km\<close> is
  the name that the axonal branch of the file tests beside \<open>kas\<close>
  (\<open>km\<close> or \<open>Im\<close>). The pair is in the dispatch table of the file, the
  shape arguments have the arity their branch unpacks, the exponent \<open>p0\<close>
  is at most 100, the slope \<open>p3\<close> of a sigmoid is not zero, the fraction
  \<open>p1\<close> is at most 1 for \<open>naf\<close> and \<open>can\<close> and at least \<open>-1\<close> for
  \<open>kaf\<close>, and the two levels of the axonal step are not negative. The
  published parameter ranges (exponents of a few units, fractions in
  \<open>[0, 1]\<close>, positive levels, non-zero slopes) lie inside. The peak value
  is bounded by \<open>peak_limit\<close>, which with the bound on \<open>p0\<close> keeps the
  scaled peak \<open>10**p0 * gbar\<close> a finite float.
\<close>

definition p0_limit :: real where
  "p0_limit = 100"

definition peak_limit :: real where
  "peak_limit = 10 ^ 100"

definition valid_density_input :: "string \<Rightarrow> string \<Rightarrow> string \<Rightarrow> real list \<Rightarrow> bool" where
  "valid_density_input km compartment mech args =
    (if compartment = ''dend'' then
       (if mech = ''naf'' \<or> mech = ''can'' then
          (case args of [p0, p1, p2, p3] \<Rightarrow> p0 \<le> p0_limit \<and> p1 \<le> 1 \<and> p3 \<noteq> 0 | _ \<Rightarrow> False)
        else if mech = ''kaf'' then
          (case args of [p0, p1, p2, p3] \<Rightarrow> p0 \<le> p0_limit \<and> - 1 \<le> p1 \<and> p3 \<noteq> 0 | _ \<Rightarrow> False)
        else if mech = ''kas'' \<or> mech = ''cav32'' \<or> mech = ''cav33'' then
          (case args of [p0, p2, p3] \<Rightarrow> p0 \<le> p0_limit \<and> p3 \<noteq> 0 | _ \<Rightarrow> False)
        else (case args of [] \<Rightarrow> False | p0 # _ \<Rightarrow> p0 \<le> p0_limit))
     else if compartment = ''axon'' then
       (if mech = ''kas'' \<or> mech = km then
          (case args of [] \<Rightarrow> False | p0 # _ \<Rightarrow> p0 \<le> p0_limit)
        else if mech = ''naf'' then
          (case args of [p0, p1, p2, p3] \<Rightarrow> 0 \<le> p0 \<and> 0 \<le> p1 | _ \<Rightarrow> False)
        else False)
     else if compartment = ''soma'' then
       (case args of [] \<Rightarrow> False | p0 # _ \<Rightarrow> p0 \<le> p0_limit)
     else False)"

section \<open>Parameter store (\<open>params.py\<close>)\<close>

text \<open>
  \<open>ModelParameters\<close> holds \<open>_params[cell_type][cell_index]\<close>, a dictionary
  with the keys \<open>rheobase\<close> and \<open>density_params\<close> (the shape arguments by
  mechanism name), and \<open>_conductances\<close>, the rows of the conductance table
  with the columns mechanism, compartment, cell and value. Both are read from
  files by the constructor; here they are the given object.
\<close>

record cell_entry =
  rheobase :: real
  density_params :: "string \<rightharpoonup> real list"

record conductance_row =
  cr_mechanism :: string
  cr_compartment :: string
  cr_cell :: string
  cr_value :: pyfloat

record ModelParameters =
  mp_params :: "string \<rightharpoonup> (int \<rightharpoonup> cell_entry)"
  mp_conductances :: "conductance_row list"

text \<open>\<open>get_rheobase\<close>: two dictionary lookups, each of which may raise \<open>KeyError\<close>.\<close>

definition get_rheobase :: "ModelParameters \<Rightarrow> string \<Rightarrow> int \<Rightarrow> error + real" where
  "get_rheobase self cell_type cell_index =
    (case mp_params self cell_type of
       None \<Rightarrow> Inl KeyError
     | Some by_index \<Rightarrow>
         (case by_index cell_index of
            None \<Rightarrow> Inl KeyError
          | Some entry \<Rightarrow> Inr (rheobase entry)))"

text \<open>
  \<open>get_gbar\<close>: the rows whose cell column is the cell type or \<open>all\<close>, without
  the cell column, as triples (mechanism, compartment, value).
\<close>

definition get_gbar :: "ModelParameters \<Rightarrow> string \<Rightarrow> (string \<times> string \<times> pyfloat) list" where
  "get_gbar self cell_type =
     map (\<lambda>r. (cr_mechanism r, cr_compartment r, cr_value r))
       (filter (\<lambda>r. cr_cell r = cell_type \<or> cr_cell r = ''all'') (mp_conductances self))"

text \<open>The rows selected by the boolean mask on mechanism and compartment.\<close>

definition gbar_rows ::
  "(string \<times> string \<times> pyfloat) list \<Rightarrow> string \<Rightarrow> string \<Rightarrow> (string \<times> string \<times> pyfloat) list" where
  "gbar_rows conductances mechanism compartment =
     filter (\<lambda>(m, c, v). m = mechanism \<and> c = compartment) conductances"

text \<open>
  The body of the last loop of \<open>get_density_params\<close>: \<open>np.nan\<close> when the
  selection is empty, the value of its first row otherwise, appended to the line.
\<close>

definition append_gbar ::
  "(string \<times> string \<times> pyfloat) list \<Rightarrow> string \<times> string \<times> real list \<Rightarrow>
   string \<times> string \<times> real list \<times> pyfloat" where
  "append_gbar conductances line =
    (case line of (compartment, mechanism, args) \<Rightarrow>
      (case gbar_rows conductances mechanism compartment of
         [] \<Rightarrow> (compartment, mechanism, args, NaN)
       | (m, c, v) # _ \<Rightarrow> (compartment, mechanism, args, v)))"

definition dend_mechs :: "string list" where
  "dend_mechs = [''naf'', ''kaf'', ''kas'', ''kir'', ''sk'', ''can'', ''cav32'',
                 ''cav33'', ''kdr'', ''cal12'', ''cal13'', ''car'', ''bk'']"

definition soma_default_mechs :: "string list" where
  "soma_default_mechs = [''naf'', ''kaf'', ''kas'', ''kdr'', ''bk'', ''cal12'',
                         ''cal13'', ''car'', ''can'']"

definition axon_lines :: "(string \<times> string \<times> real list) list" where
  "axon_lines = [(''axon'', ''kas'', [0]),
                 (''axon'', ''naf'', [1, 11 / 10, 30, 500]),
                 (''axon'', ''km'', [0])]"

text \<open>
  \<open>get_density_params\<close>. The dendritic loop tests \<open>mech in density_params\<close>
  and defaults to \<open>[0]\<close>; the somatic loop for \<open>sk\<close> and \<open>kir\<close> indexes the
  dictionary without a test, so a missing key raises \<open>KeyError\<close>.
\<close>

definition get_density_params ::
  "ModelParameters \<Rightarrow> string \<Rightarrow> int \<Rightarrow>
   error + (string \<times> string \<times> real list \<times> pyfloat) list" where
  "get_density_params self cell_type cell_index =
    (case mp_params self cell_type of
       None \<Rightarrow> Inl KeyError
     | Some by_index \<Rightarrow>
    (case by_index cell_index of
       None \<Rightarrow> Inl KeyError
     | Some entry \<Rightarrow>
      (let dp = density_params entry;
           dend_part = map (\<lambda>mech. (''dend'', mech,
                         (case dp mech of Some args \<Rightarrow> args | None \<Rightarrow> [0]))) dend_mechs;
           soma_part = map (\<lambda>mech. (''soma'', mech, [0])) soma_default_mechs
       in (case dp ''sk'' of
             None \<Rightarrow> Inl KeyError
           | Some sk_args \<Rightarrow>
          (case dp ''kir'' of
             None \<Rightarrow> Inl KeyError
           | Some kir_args \<Rightarrow>
              (let params = dend_part @ soma_part
                     @ [(''soma'', ''sk'', sk_args), (''soma'', ''kir'', kir_args)]
                     @ axon_lines;
                   conductances = get_gbar self cell_type
               in Inr (map (append_gbar conductances) params)))))))"

section \<open>Cell (\<open>cell.py\<close>)\<close>

text \<open>
  Python's \<open>sub in s\<close> on strings and \<open>int(x)\<close> on a float (truncation
  towards zero).
\<close>

fun str_in :: "string \<Rightarrow> string \<Rightarrow> bool" where
  "str_in sub [] = (sub = [])"
| "str_in sub (c # cs) = (take (length sub) (c # cs) = sub \<or> str_in sub cs)"

definition py_int :: "real \<Rightarrow> int" where
  "py_int x = (if 0 \<le> x then \<lfloor>x\<rfloor> else \<lceil>x\<rceil>)"

text \<open>
  The variables of a density mechanism or of a point process that the
  modulation code writes. \<open>oname\<close> is what \<open>name()\<close> or \<open>hname()\<close> returns.
  A \<open>*_play\<close> field holds the key of the trajectory that was attached to the
  variable with \<open>Vector.play\<close>, if any.
\<close>

record nrn_obj =
  oname :: string
  damod :: real
  maxMod :: real
  level :: real
  max2 :: real
  lev2 :: real
  modShift :: real
  level_play :: "string option"
  lev2_play :: "string option"
  modShift_play :: "string option"

record segment =
  seg_x :: real
  mechs :: "nrn_obj list"
  point_procs :: "nrn_obj list"

record nrn_section =
  sec_name :: string
  L :: real
  nseg :: int
  segs :: "segment list"

record synapse =
  syn_type :: string
  syn_x :: real
  syn_sec :: string
  scale_factor :: "real option"

record netstim =
  interval :: real
  number :: int
  start :: real
  noise :: real

record netcon =
  threshold :: real
  delay :: real
  weight :: real

text \<open>
  The attribute \<open>soma\<close> is the importer's list of sections until
  \<open>_setup_morphology\<close> rebinds it to the single section. Sections are
  shared objects: \<open>all_secs\<close> holds them in the order of \<open>self.all\<close>, and
  \<open>soma\<close> and \<open>dend\<close> refer to them by position.
\<close>

datatype soma_attr = SomaList "nat list" | SomaSec nat

record MSN =
  msn_type :: string
  all_secs :: "nrn_section list"
  soma :: soma_attr
  dend :: "nat list"
  bg_noise :: "(synapse \<times> netstim \<times> netcon) list"

text \<open>The spatial discretisation of one section.\<close>

definition discretise :: "nrn_section \<Rightarrow> nrn_section" where
  "discretise sec =
     (if str_in ''axon'' (sec_name sec) then sec\<lparr>nseg := 2\<rparr>
      else sec\<lparr>nseg := 2 * py_int (L sec / 40) + 1\<rparr>)"

text \<open>
  \<open>_setup_morphology\<close>, after the import of the morphology file: the
  assertion that there is one soma, the rebinding of \<open>soma\<close>, and the loop
  over \<open>self.all\<close>. Taking \<open>len\<close> of a section is a \<open>TypeError\<close>, reported
  here as \<open>AttributeError\<close>.
\<close>

definition setup_morphology :: "MSN \<Rightarrow> error + MSN" where
  "setup_morphology self =
    (case soma self of
       SomaSec i \<Rightarrow> Inl AttributeError
     | SomaList somas \<Rightarrow>
         (case somas of
            [i] \<Rightarrow> Inr (self\<lparr>soma := SomaSec i, all_secs := map discretise (all_secs self)\<rparr>)
          | _ \<Rightarrow> Inl AssertionError))"

text \<open>\<open>synaptic_input\<close>: the synapse, the spike generator and the connection.\<close>

definition synaptic_input ::
  "nrn_section \<Rightarrow> string \<Rightarrow> real \<Rightarrow> real \<Rightarrow> int \<Rightarrow> real \<Rightarrow> real \<Rightarrow> real \<Rightarrow> real \<Rightarrow> real \<Rightarrow>
   error + (synapse \<times> netstim \<times> netcon)" where
  "synaptic_input sec stype x interval' number' start' noise' threshold' delay' weight' =
    (if stype = ''ampa'' \<or> stype = ''nmda'' \<or> stype = ''gaba'' then
       Inr (\<lparr>syn_type = stype, syn_x = x, syn_sec = sec_name sec, scale_factor = None\<rparr>,
            \<lparr>interval = interval', number = number', start = start', noise = noise'\<rparr>,
            \<lparr>threshold = threshold', delay = delay', weight = weight'\<rparr>)
     else Inl ValueError)"

text \<open>
  \<open>remove_bg_noise\<close>: the weight of every tracked connection is set to 0 and
  the list is replaced by the empty list, after which the cell no longer refers
  to those connections.
\<close>

definition zero_weights :: "(synapse \<times> netstim \<times> netcon) list \<Rightarrow> (synapse \<times> netstim \<times> netcon) list" where
  "zero_weights lines = map (\<lambda>(syn, stim, con). (syn, stim, con\<lparr>weight := 0\<rparr>)) lines"

definition remove_bg_noise :: "MSN \<Rightarrow> MSN" where
  "remove_bg_noise self =
     (if length (bg_noise self) > 0
      then (self\<lparr>bg_noise := zero_weights (bg_noise self)\<rparr>)\<lparr>bg_noise := []\<rparr>
      else self)"

text \<open>Truth value of an optional number: \<open>None\<close> and 0 are false.\<close>

fun truthy :: "real option \<Rightarrow> bool" where
  "truthy None = False"
| "truthy (Some v) = (v \<noteq> 0)"

text \<open>The base conductance; for another cell type the variable stays unbound.\<close>

definition gbase_of :: "string \<Rightarrow> real option" where
  "gbase_of cell_type =
     (if cell_type = ''dmsn'' then Some (3 / 10000)
      else if cell_type = ''imsn'' then Some (2 / 10000)
      else None)"

text \<open>The GABA conductance: \<open>if gaba_scale_factor: ... else: ...\<close>.\<close>

definition gaba_conductance :: "real \<Rightarrow> real option \<Rightarrow> real" where
  "gaba_conductance gbase gaba_scale_factor =
     (if truthy gaba_scale_factor then gbase * 3 * the gaba_scale_factor else gbase * 5)"

text \<open>
  The loop of \<open>add_bg_noise\<close> over \<open>enumerate(sections)\<close>; \<open>acc\<close> is
  \<open>self._bg_noise\<close>. Errors in the order the statements raise them:
  \<open>delays[indx]\<close>, the division by \<open>glut_freq\<close>, the unbound \<open>gbase\<close>, the
  division by \<open>gaba_freq\<close>.
\<close>

fun bg_loop ::
  "real option \<Rightarrow> real \<Rightarrow> real \<Rightarrow> real option \<Rightarrow> real option \<Rightarrow> real option \<Rightarrow> real list \<Rightarrow>
   nat \<Rightarrow> nrn_section list \<Rightarrow> (synapse \<times> netstim \<times> netcon) list \<Rightarrow>
   error + (synapse \<times> netstim \<times> netcon) list" where
  "bg_loop gbase gaba_freq glut_freq ampa_sf nmda_sf gaba_sf delays indx [] acc = Inr acc"
| "bg_loop gbase gaba_freq glut_freq ampa_sf nmda_sf gaba_sf delays indx (sec # rest) acc =
    (if length delays \<noteq> 0 \<and> length delays \<le> indx then Inl IndexError
     else if glut_freq = 0 then Inl ZeroDivisionError
     else
       (let delay' = (if length delays = 0 then 0 else delays ! indx) in
        (case gbase of
           None \<Rightarrow> Inl UnboundLocalError
         | Some g \<Rightarrow>
            (case synaptic_input sec ''ampa'' (1 / 2) (1000 / glut_freq) 1000 delay' 1 (1 / 10) 0 g of
               Inl e \<Rightarrow> Inl e
             | Inr (ampa, stim1, con1) \<Rightarrow>
                (case synaptic_input sec ''nmda'' (1 / 2) (1000 / glut_freq) 1000 delay' 1 (1 / 10) 0 g of
                   Inl e \<Rightarrow> Inl e
                 | Inr (nmda, stim2, con2) \<Rightarrow>
                    (if gaba_freq = 0 then Inl ZeroDivisionError
                     else
                       (case synaptic_input sec ''gaba'' (1 / 10) (1000 / gaba_freq) 1000 delay' 1
                               (1 / 10) 0 (gaba_conductance g gaba_sf) of
                          Inl e \<Rightarrow> Inl e
                        | Inr (gaba, stim3, con3) \<Rightarrow>
                            bg_loop gbase gaba_freq glut_freq ampa_sf nmda_sf gaba_sf delays
                              (Suc indx) rest
                              (acc @
                               [((if truthy ampa_sf then ampa\<lparr>scale_factor := ampa_sf\<rparr> else ampa),
                                 stim1, con1),
                                ((if truthy nmda_sf then nmda\<lparr>scale_factor := nmda_sf\<rparr> else nmda),
                                 stim2, con2),
                                (gaba, stim3, con3)]))))))))"

definition add_bg_noise ::
  "MSN \<Rightarrow> real \<Rightarrow> real \<Rightarrow> bool \<Rightarrow> real option \<Rightarrow> real option \<Rightarrow> real option \<Rightarrow> real list \<Rightarrow>
   error + MSN" where
  "add_bg_noise self gaba_freq glut_freq dend_only ampa_scale_factor nmda_scale_factor
                gaba_scale_factor delays =
    (let sections = (if dend_only then filter (\<lambda>sec. str_in ''dend'' (sec_name sec)) (all_secs self)
                     else all_secs self);
         self1 = remove_bg_noise self
     in (case bg_loop (gbase_of (msn_type self1)) gaba_freq glut_freq ampa_scale_factor
                nmda_scale_factor gaba_scale_factor delays 0 sections (bg_noise self1) of
           Inl e \<Rightarrow> Inl e
         | Inr noise' \<Rightarrow> Inr (self1\<lparr>bg_noise := noise'\<rparr>)))"

text \<open>
  What the loop establishes for every connection it tracks: the weight of an
  AMPA or NMDA connection is the base conductance, the weight of a GABA
  connection is the conductance computed from the scale factor.
\<close>

definition noise_weight_ok :: "real \<Rightarrow> real option \<Rightarrow> synapse \<times> netstim \<times> netcon \<Rightarrow> bool" where
  "noise_weight_ok g gaba_sf line =
    (case line of (syn, stim, con) \<Rightarrow>
      (if syn_type syn = ''gaba'' then weight con = gaba_conductance g gaba_sf
       else weight con = g))"

section \<open>Modulation (\<open>modulation.py\<close>)\<close>

text \<open>
  The modulation factors: the dictionary \<open>intrinsic\<close> by mechanism name and
  the three entries of \<open>synaptic\<close>.
\<close>

record mod_params =
  intrinsic :: "string \<rightharpoonup> real"
  syn_NMDA :: real
  syn_AMPA :: real
  syn_GABA :: real

text \<open>
  \<open>rand_uniform(low, high)\<close> with the generator's draw \<open>u\<close> from \<open>[0, 1)\<close>
  made explicit.
\<close>

definition rand_uniform :: "real \<Rightarrow> real \<Rightarrow> real \<Rightarrow> real" where
  "rand_uniform low high u = low + (high - low) * u"

text \<open>
  \<open>get_modulation_params\<close>; \<open>rng k\<close> is the \<open>k\<close>-th draw of the call, in
  the order in which the dictionary literal evaluates its values. A cell type
  or neurotransmitter outside the four cases leaves \<open>modulation\<close> unbound.
\<close>

definition get_modulation_params :: "(nat \<Rightarrow> real) \<Rightarrow> string \<Rightarrow> string \<Rightarrow> error + mod_params" where
  "get_modulation_params rng cell_type neurotransmitter =
    (if cell_type = ''imsn'' \<and> neurotransmitter = ''DA'' then
       Inr \<lparr>intrinsic = map_of
              [(''naf'', rand_uniform (95 / 100) (11 / 10) (rng 0)),
               (''kaf'', rand_uniform 1 (11 / 10) (rng 1)),
               (''kas'', rand_uniform 1 (11 / 10) (rng 2)),
               (''kir'', rand_uniform (8 / 10) 1 (rng 3)),
               (''cal12'', rand_uniform (7 / 10) (8 / 10) (rng 4)),
               (''cal13'', rand_uniform (7 / 10) (8 / 10) (rng 5)),
               (''can'', rand_uniform (9 / 10) 1 (rng 6)),
               (''car'', rand_uniform (6 / 10) (8 / 10) (rng 7))],
            syn_NMDA = rand_uniform (85 / 100) (105 / 100) (rng 8),
            syn_AMPA = rand_uniform (7 / 10) (9 / 10) (rng 9),
            syn_GABA = rand_uniform (9 / 10) (11 / 10) (rng 10)\<rparr>
     else if cell_type = ''imsn'' \<and> neurotransmitter = ''ACh'' then
       Inr \<lparr>intrinsic = map_of
              [(''naf'', rand_uniform 1 (12 / 10) (rng 0)),
               (''kir'', rand_uniform (5 / 10) (7 / 10) (rng 1)),
               (''cal12'', rand_uniform (3 / 10) (7 / 10) (rng 2)),
               (''cal13'', rand_uniform (3 / 10) (7 / 10) (rng 3)),
               (''can'', rand_uniform (65 / 100) (85 / 100) (rng 4)),
               (''km'', rand_uniform 0 (4 / 10) (rng 5))],
            syn_NMDA = rand_uniform 1 (105 / 100) (rng 6),
            syn_AMPA = rand_uniform (99 / 100) (101 / 100) (rng 7),
            syn_GABA = rand_uniform (99 / 100) (101 / 100) (rng 8)\<rparr>
     else if cell_type = ''dmsn'' \<and> neurotransmitter = ''DA'' then
       Inr \<lparr>intrinsic = map_of
              [(''naf'', rand_uniform (6 / 10) (8 / 10) (rng 0)),
               (''kaf'', rand_uniform (75 / 100) (85 / 100) (rng 1)),
               (''kas'', rand_uniform (65 / 100) (85 / 100) (rng 2)),
               (''kir'', rand_uniform (85 / 100) (125 / 100) (rng 3)),
               (''cal12'', rand_uniform 1 2 (rng 4)),
               (''cal13'', rand_uniform 1 2 (rng 5)),
               (''can'', rand_uniform (2 / 10) 1 (rng 6))],
            syn_NMDA = 13 / 10,
            syn_AMPA = 12 / 10,
            syn_GABA = 8 / 10\<rparr>
     else if cell_type = ''dmsn'' \<and> neurotransmitter = ''ACh'' then
       Inr \<lparr>intrinsic = map_of
              [(''naf'', rand_uniform 1 (12 / 10) (rng 0)),
               (''kir'', rand_uniform (8 / 10) 1 (rng 1)),
               (''cal12'', rand_uniform (3 / 10) (7 / 10) (rng 2)),
               (''cal13'', rand_uniform (3 / 10) (7 / 10) (rng 3)),
               (''can'', rand_uniform (65 / 100) (85 / 100) (rng 4)),
               (''km'', rand_uniform 0 (4 / 10) (rng 5))],
            syn_NMDA = 1,
            syn_AMPA = 1,
            syn_GABA = 1\<rparr>
     else Inl UnboundLocalError)"

text \<open>
  The attributes shared by the classes \<open>Dopamine\<close> and \<open>Acetylcholine\<close>.
  \<open>play\<close> is the collection of keys of the trajectories; \<open>sections\<close> refers
  to the sections of \<open>cell\<close> by position.
\<close>

record modulator =
  cell :: MSN
  params :: mod_params
  play :: "string list"
  dt :: real
  sections :: "nat list"

text \<open>\<open>Dopamine._modulate_instrinsic\<close>, the body of its loop over mechanisms.\<close>

definition da_intrinsic_mech :: "mod_params \<Rightarrow> string list \<Rightarrow> bool \<Rightarrow> nrn_obj \<Rightarrow> nrn_obj" where
  "da_intrinsic_mech prm pl reset mech =
    (case intrinsic prm (oname mech) of
       None \<Rightarrow> mech
     | Some factor \<Rightarrow>
        (let m1 = mech\<lparr>damod := 1, maxMod := factor\<rparr> in
         if reset then m1\<lparr>level := 0\<rparr>
         else if length pl \<noteq> 0 \<and> oname mech \<in> set pl
           then m1\<lparr>level_play := Some (oname mech)\<rparr>
         else m1\<lparr>level := 1\<rparr>))"

definition da_modulate_instrinsic :: "mod_params \<Rightarrow> string list \<Rightarrow> bool \<Rightarrow> segment \<Rightarrow> segment" where
  "da_modulate_instrinsic prm pl reset seg =
     seg\<lparr>mechs := map (da_intrinsic_mech prm pl reset) (mechs seg)\<rparr>"

text \<open>The common body of the synaptic branches of \<open>Dopamine\<close>.\<close>

definition da_set_syn :: "real \<Rightarrow> string \<Rightarrow> string list \<Rightarrow> bool \<Rightarrow> nrn_obj \<Rightarrow> nrn_obj" where
  "da_set_syn factor key pl reset syn =
    (let s1 = syn\<lparr>damod := 1, maxMod := factor\<rparr> in
     if reset then s1\<lparr>level := 0\<rparr>
     else if length pl \<noteq> 0 \<and> key \<in> set pl then s1\<lparr>level_play := Some key\<rparr>
     else s1\<lparr>level := 1\<rparr>)"

definition da_modulate_gaba :: "mod_params \<Rightarrow> string list \<Rightarrow> bool \<Rightarrow> segment \<Rightarrow> segment" where
  "da_modulate_gaba prm pl reset seg =
     seg\<lparr>point_procs := map (\<lambda>syn.
        if str_in ''gaba'' (oname syn) then da_set_syn (syn_GABA prm) ''gaba'' pl reset syn
        else syn) (point_procs seg)\<rparr>"

definition da_modulate_glut :: "mod_params \<Rightarrow> string list \<Rightarrow> bool \<Rightarrow> segment \<Rightarrow> segment" where
  "da_modulate_glut prm pl reset seg =
     seg\<lparr>point_procs := map (\<lambda>syn.
        if str_in ''ampa'' (oname syn) then da_set_syn (syn_AMPA prm) ''glut'' pl reset syn
        else if str_in ''nmda'' (oname syn) then da_set_syn (syn_NMDA prm) ''glut'' pl reset syn
        else syn) (point_procs seg)\<rparr>"

text \<open>
  \<open>for section in self._sections: for segment in section: ...\<close>, with the
  body as a function on segments. The sections are updated in place.
\<close>

definition on_segments :: "(segment \<Rightarrow> segment) \<Rightarrow> nat list \<Rightarrow> MSN \<Rightarrow> MSN" where
  "on_segments f ixs c =
     foldl (\<lambda>c i. c\<lparr>all_secs := (all_secs c)
                 [i := (all_secs c ! i)\<lparr>segs := map f (segs (all_secs c ! i))\<rparr>]\<rparr>) c ixs"

text \<open>
  The choice of \<open>self._sections\<close>. For another value of \<open>modulate\<close> the
  attribute is never set and the loop of the constructor raises
  \<open>AttributeError\<close>; so does a cell whose \<open>soma\<close> is still a list.
\<close>

definition select_sections :: "MSN \<Rightarrow> string \<Rightarrow> error + nat list" where
  "select_sections c modulate =
    (if modulate = ''all'' then Inr [0 ..< length (all_secs c)]
     else if modulate = ''no_axon'' then
       (case soma c of SomaSec i \<Rightarrow> Inr (i # dend c) | SomaList l \<Rightarrow> Inl AttributeError)
     else Inl AttributeError)"

definition Dopamine_init ::
  "(nat \<Rightarrow> real) \<Rightarrow> MSN \<Rightarrow> string \<Rightarrow> bool \<Rightarrow> bool \<Rightarrow> bool \<Rightarrow> string list \<Rightarrow> real \<Rightarrow>
   error + modulator" where
  "Dopamine_init rng c modulate intrinsic_modulation gaba_modulation glut_modulation pl dt' =
    (case get_modulation_params rng (msn_type c) ''DA'' of
       Inl e \<Rightarrow> Inl e
     | Inr prm \<Rightarrow>
        (case select_sections c modulate of
           Inl e \<Rightarrow> Inl e
         | Inr ixs \<Rightarrow>
            Inr \<lparr>cell = on_segments (\<lambda>seg.
                    (let s1 = (if intrinsic_modulation
                               then da_modulate_instrinsic prm pl False seg else seg);
                         s2 = (if gaba_modulation then da_modulate_gaba prm pl False s1 else s1)
                     in if glut_modulation then da_modulate_glut prm pl False s2 else s2))
                    ixs c,
                 params = prm, play = pl, dt = dt', sections = ixs\<rparr>))"

text \<open>
  \<open>trans.play_remove()\<close> for every trajectory: no variable of the cell is
  driven by one of them afterwards.
\<close>

definition unplay :: "string list \<Rightarrow> string option \<Rightarrow> string option" where
  "unplay pl src = (case src of None \<Rightarrow> None
                    | Some k \<Rightarrow> if k \<in> set pl then None else Some k)"

definition unplay_obj :: "string list \<Rightarrow> nrn_obj \<Rightarrow> nrn_obj" where
  "unplay_obj pl ob = ob\<lparr>level_play := unplay pl (level_play ob),
                         lev2_play := unplay pl (lev2_play ob),
                         modShift_play := unplay pl (modShift_play ob)\<rparr>"

definition play_remove_all :: "string list \<Rightarrow> MSN \<Rightarrow> MSN" where
  "play_remove_all pl c =
     c\<lparr>all_secs := map (\<lambda>sec. sec\<lparr>segs := map (\<lambda>seg.
          seg\<lparr>mechs := map (unplay_obj pl) (mechs seg),
              point_procs := map (unplay_obj pl) (point_procs seg)\<rparr>) (segs sec)\<rparr>) (all_secs c)\<rparr>"

definition Dopamine_reset :: "modulator \<Rightarrow> modulator" where
  "Dopamine_reset self =
    (let c1 = (if length (play self) \<noteq> 0 then play_remove_all (play self) (cell self)
               else cell self)
     in self\<lparr>cell := on_segments (\<lambda>seg.
          da_modulate_gaba (params self) (play self) True
            (da_modulate_glut (params self) (play self) True
              (da_modulate_instrinsic (params self) (play self) True seg)))
          (sections self) c1\<rparr>)"

text \<open>
  \<open>Acetylcholine._modulate_intrinsic\<close>: the test of \<open>play\<close> follows the
  reset branch as a second \<open>if\<close>, not as an \<open>elif\<close>.
\<close>

definition ach_intrinsic_mech :: "mod_params \<Rightarrow> string list \<Rightarrow> bool \<Rightarrow> nrn_obj \<Rightarrow> nrn_obj" where
  "ach_intrinsic_mech prm pl reset mech =
    (case intrinsic prm (oname mech) of
       None \<Rightarrow> mech
     | Some factor \<Rightarrow>
        (let m1 = mech\<lparr>damod := 1, max2 := factor\<rparr>;
             m2 = (if reset then m1\<lparr>damod := 0, lev2 := 0\<rparr> else m1)
         in if length pl \<noteq> 0 \<and> oname mech \<in> set pl
              then m2\<lparr>lev2_play := Some (oname mech)\<rparr>
            else m2\<lparr>lev2 := 1\<rparr>))"

definition ach_modulate_intrinsic :: "mod_params \<Rightarrow> string list \<Rightarrow> bool \<Rightarrow> segment \<Rightarrow> segment" where
  "ach_modulate_intrinsic prm pl reset seg =
     seg\<lparr>mechs := map (ach_intrinsic_mech prm pl reset) (mechs seg)\<rparr>"

definition shift_kaf :: "string \<Rightarrow> string list \<Rightarrow> real \<Rightarrow> bool \<Rightarrow> segment \<Rightarrow> segment" where
  "shift_kaf cell_type pl by_mV reset seg =
    (if cell_type = ''dmsn'' then
       seg\<lparr>mechs := map (\<lambda>mech.
          if oname mech = ''kaf'' then
            (if reset then mech\<lparr>damod := 0, modShift := 0\<rparr>
             else if length pl \<noteq> 0 \<and> ''kaf'' \<in> set pl
               then mech\<lparr>modShift_play := Some ''kaf''\<rparr>
             else mech\<lparr>modShift := by_mV\<rparr>)
          else mech) (mechs seg)\<rparr>
     else seg)"

text \<open>The common body of the synaptic branches of \<open>Acetylcholine\<close>.\<close>

definition ach_set_syn :: "real \<Rightarrow> string \<Rightarrow> string list \<Rightarrow> bool \<Rightarrow> nrn_obj \<Rightarrow> nrn_obj" where
  "ach_set_syn factor key pl reset syn =
    (let s1 = syn\<lparr>damod := 1, max2 := factor\<rparr> in
     if reset then s1\<lparr>damod := 0, lev2 := 0\<rparr>
     else if length pl \<noteq> 0 \<and> key \<in> set pl then s1\<lparr>lev2_play := Some key\<rparr>
     else s1\<lparr>lev2 := 1\<rparr>)"

definition ach_modulate_gaba :: "mod_params \<Rightarrow> string list \<Rightarrow> bool \<Rightarrow> segment \<Rightarrow> segment" where
  "ach_modulate_gaba prm pl reset seg =
     seg\<lparr>point_procs := map (\<lambda>syn.
        if str_in ''gaba'' (oname syn) then ach_set_syn (syn_GABA prm) ''gaba'' pl reset syn
        else syn) (point_procs seg)\<rparr>"

definition ach_modulate_glut :: "mod_params \<Rightarrow> string list \<Rightarrow> bool \<Rightarrow> segment \<Rightarrow> segment" where
  "ach_modulate_glut prm pl reset seg =
     seg\<lparr>point_procs := map (\<lambda>syn.
        if str_in ''ampa'' (oname syn) then ach_set_syn (syn_AMPA prm) ''glut'' pl reset syn
        else if str_in ''nmda'' (oname syn) then ach_set_syn (syn_NMDA prm) ''glut'' pl reset syn
        else syn) (point_procs seg)\<rparr>"

definition Acetylcholine_init ::
  "(nat \<Rightarrow> real) \<Rightarrow> MSN \<Rightarrow> string \<Rightarrow> bool \<Rightarrow> bool \<Rightarrow> bool \<Rightarrow> real \<Rightarrow> string list \<Rightarrow> real \<Rightarrow>
   error + modulator" where
  "Acetylcholine_init rng c modulate intrinsic_modulation gaba_modulation glut_modulation
                      shift_kaf' pl dt' =
    (case get_modulation_params rng (msn_type c) ''ACh'' of
       Inl e \<Rightarrow> Inl e
     | Inr prm \<Rightarrow>
        (case select_sections c modulate of
           Inl e \<Rightarrow> Inl e
         | Inr ixs \<Rightarrow>
            Inr \<lparr>cell = on_segments (\<lambda>seg.
                    (let s1 = (if intrinsic_modulation
                               then ach_modulate_intrinsic prm pl False seg else seg);
                         s2 = (if gaba_modulation then ach_modulate_gaba prm pl False s1 else s1);
                         s3 = (if glut_modulation then ach_modulate_glut prm pl False s2 else s2)
                     in if shift_kaf' \<noteq> 0
                          then shift_kaf (msn_type c) pl shift_kaf' False s3 else s3))
                    ixs c,
                 params = prm, play = pl, dt = dt', sections = ixs\<rparr>))"

definition Acetylcholine_reset :: "modulator \<Rightarrow> string \<Rightarrow> error + modulator" where
  "Acetylcholine_reset self what =
    (if what \<notin> set [''all'', ''gaba'', ''glut'', ''intrinsic''] then Inl ValueError
     else
      (let c1 = (if length (play self) \<noteq> 0 then play_remove_all (play self) (cell self)
                 else cell self)
       in Inr (self\<lparr>cell := on_segments (\<lambda>seg.
            (let s1 = (if what = ''all'' \<or> what = ''intrinsic''
                       then shift_kaf (msn_type (cell self)) (play self) (- 10) True
                              (ach_modulate_intrinsic (params self) (play self) True seg)
                       else seg);
                 s2 = (if what = ''all'' \<or> what = ''glut''
                       then ach_modulate_glut (params self) (play self) True s1 else s1)
             in if what = ''all'' \<or> what = ''gaba''
                  then ach_modulate_gaba (params self) (play self) True s2 else s2))
            (sections self) c1\<rparr>)))"

section \<open>The parameter store with list objects\<close>




























section \<open>Properties of the profile functions\<close>

lemma float_max_large: "10 ^ 200 \<le> float_max"
  by (simp add: float_max_def)

lemma pow10_small: "p0 \<le> p0_limit \<Longrightarrow> 10 powr p0 \<le> 10 ^ 100"
proof -
  assume "p0 \<le> p0_limit"
  then have "(10::real) powr p0 \<le> 10 powr 100"
    by (intro powr_mono) (simp_all add: p0_limit_def)
  then show ?thesis by simp
qed

lemma pow10_ok: "p0 \<le> p0_limit \<Longrightarrow> pow10 p0 = Inr (10 powr p0)"
proof -
  assume "p0 \<le> p0_limit"
  then have "10 powr p0 \<le> 10 ^ 100" by (rule pow10_small)
  also have "(10::real) ^ 100 \<le> 10 ^ 200" by simp
  also note float_max_large
  finally show ?thesis by (simp add: pow10_def)
qed

lemma pow10_zero: "pow10 0 = Inr 1"
  using pow10_ok [of 0] by (simp add: p0_limit_def)

text \<open>
  C9. For every peak value \<open>P\<close> and every distance, the uniform profile with
  shape arguments \<open>[0]\<close> returns exactly \<open>P\<close>: the factor \<open>10 ** 0\<close> is 1.
  This holds for a NaN peak as well (the result is the same NaN).
\<close>

theorem uniform_fun_zero_identity:
  "uniform_fun distance [0] P = Inr P"
  by (cases P) (simp_all add: pow10_zero)

text \<open>
  C4. For every distance, four shape arguments and peak value, the step profile
  returns \<open>args[0] * peak\<close> when \<open>args[2] < distance < args[3]\<close> and
  \<open>args[1] * peak\<close> otherwise; at a distance equal to \<open>args[2]\<close> or to
  \<open>args[3]\<close> the result is \<open>args[1] * peak\<close>, because both comparisons are
  strict.
\<close>

theorem step_fun_strict_interval:
  "step_fun distance [p0, p1, p2, p3] peak =
     Inr (if p2 < distance \<and> distance < p3 then fmul p0 peak else fmul p1 peak)
   \<and> step_fun p2 [p0, p1, p2, p3] peak = Inr (fmul p1 peak)
   \<and> step_fun p3 [p0, p1, p2, p3] peak = Inr (fmul p1 peak)"
  by simp

subsection \<open>Non-negative densities\<close>

text \<open>Within the bounds the scaled peak is a finite float.\<close>

lemma scaled_peak_finite:
  assumes "0 \<le> peak" and "peak \<le> peak_limit" and "p0 \<le> p0_limit"
  shows "10 powr p0 * peak \<le> float_max"
proof -
  from assms(3) have "10 powr p0 \<le> 10 ^ 100" by (rule pow10_small)
  moreover from assms(2) have "peak \<le> 10 ^ 100" by (simp add: peak_limit_def)
  ultimately have "10 powr p0 * peak \<le> 10 ^ 100 * 10 ^ 100"
    using assms(1) by (intro mult_mono) simp_all
  also have "(10::real) ^ 100 * 10 ^ 100 = 10 ^ 200" by (simp add: power_add [symmetric])
  also note float_max_large
  finally show ?thesis .
qed

lemma sigm_pos: "0 < sigm d p2 p3"
  by (simp add: sigm_def add_pos_pos)

lemma sigm_less_one: "sigm d p2 p3 < 1"
proof -
  have "1 < 1 + exp ((d - p2) / p3)" by simp
  then show ?thesis unfolding sigm_def by (simp only: divide_less_eq_1_pos)
qed

lemma naf_factor_nonneg:
  assumes "p1 \<le> 1" "0 < s" "s < (1::real)"
  shows "0 \<le> 1 - p1 + p1 * s"
proof (cases "0 \<le> p1")
  case True
  have "p1 * (1 - s) \<le> 1 * 1"
    using True assms by (intro mult_mono) auto
  then show ?thesis by (simp add: algebra_simps)
next
  case False
  then have "0 \<le> (- p1) * (1 - s)" using assms by (intro mult_nonneg_nonneg) auto
  then show ?thesis by (simp add: algebra_simps)
qed

lemma kaf_factor_nonneg:
  assumes "- 1 \<le> p1" "0 < s" "s < (1::real)"
  shows "0 \<le> 1 + p1 * s"
proof (cases "0 \<le> p1")
  case True
  then have "0 \<le> p1 * s" using assms by simp
  then show ?thesis by simp
next
  case False
  have "(- p1) * s \<le> 1 * 1"
    using False assms by (intro mult_mono) auto
  then show ?thesis by simp
qed

lemma kas_factor_nonneg: "0 \<le> 1 / 10 + (9 / 10) * sigm distance p2 p3"
  using sigm_pos [of distance p2 p3] by simp

lemma args4_shape:
  "(case args of [p0, p1, p2, p3] \<Rightarrow> P p0 p1 p2 p3 | _ \<Rightarrow> False) \<Longrightarrow>
   \<exists>p0 p1 p2 p3. args = [p0, p1, p2, p3] \<and> P p0 p1 p2 p3"
  by (simp split: list.splits)

lemma args3_shape:
  "(case args of [p0, p2, p3] \<Rightarrow> P p0 p2 p3 | _ \<Rightarrow> False) \<Longrightarrow>
   \<exists>p0 p2 p3. args = [p0, p2, p3] \<and> P p0 p2 p3"
  by (simp split: list.splits)

lemma args1_shape:
  "(case args of [] \<Rightarrow> False | p0 # rest \<Rightarrow> P p0) \<Longrightarrow> \<exists>p0 rest. args = p0 # rest \<and> P p0"
  by (simp split: list.splits)

lemma uniform_fun_nonneg:
  assumes "(case args of [] \<Rightarrow> False | p0 # rest \<Rightarrow> p0 \<le> p0_limit)" and "0 \<le> peak"
  shows "\<exists>d. uniform_fun distance args (Fin peak) = Inr (Fin d) \<and> 0 \<le> d"
proof -
  from args1_shape [where args = args and P = "\<lambda>p0. p0 \<le> p0_limit", OF assms(1)]
  obtain p0 rest where "args = p0 # rest" "p0 \<le> p0_limit" by blast
  with assms(2) show ?thesis by (simp add: pow10_ok)
qed

lemma step_fun_nonneg:
  "0 \<le> p0 \<Longrightarrow> 0 \<le> p1 \<Longrightarrow> 0 \<le> peak \<Longrightarrow>
   \<exists>d. step_fun distance [p0, p1, p2, p3] (Fin peak) = Inr (Fin d) \<and> 0 \<le> d"
  by simp

lemma dend_naf:
  "p0 \<le> p0_limit \<Longrightarrow> p1 \<le> 1 \<Longrightarrow> p3 \<noteq> 0 \<Longrightarrow> 0 \<le> peak \<Longrightarrow>
   \<exists>d. dend_density distance ''naf'' [p0, p1, p2, p3] (Fin peak) = Inr (Fin d) \<and> 0 \<le> d"
  by (simp add: dend_density_def pow10_ok naf_factor_nonneg sigm_pos sigm_less_one)

lemma dend_can:
  "p0 \<le> p0_limit \<Longrightarrow> p1 \<le> 1 \<Longrightarrow> p3 \<noteq> 0 \<Longrightarrow>
   \<exists>d. dend_density distance ''can'' [p0, p1, p2, p3] (Fin peak) = Inr (Fin d) \<and> 0 \<le> d"
  by (simp add: dend_density_def pow10_ok naf_factor_nonneg sigm_pos sigm_less_one)

lemma dend_kaf:
  "p0 \<le> p0_limit \<Longrightarrow> - 1 \<le> p1 \<Longrightarrow> p3 \<noteq> 0 \<Longrightarrow> 0 \<le> peak \<Longrightarrow>
   \<exists>d. dend_density distance ''kaf'' [p0, p1, p2, p3] (Fin peak) = Inr (Fin d) \<and> 0 \<le> d"
  by (simp add: dend_density_def pow10_ok kaf_factor_nonneg sigm_pos sigm_less_one)

lemma dend_kas:
  "p0 \<le> p0_limit \<Longrightarrow> p3 \<noteq> 0 \<Longrightarrow> 0 \<le> peak \<Longrightarrow>
   \<exists>d. dend_density distance ''kas'' [p0, p2, p3] (Fin peak) = Inr (Fin d) \<and> 0 \<le> d"
  using kas_factor_nonneg [of distance p2 p3]
  by (simp add: dend_density_def pow10_ok del: times_divide_eq_left)

lemma dend_cav:
  "mech = ''cav32'' \<or> mech = ''cav33'' \<Longrightarrow> p0 \<le> p0_limit \<Longrightarrow> p3 \<noteq> 0 \<Longrightarrow>
   \<exists>d. dend_density distance mech [p0, p2, p3] (Fin peak) = Inr (Fin d) \<and> 0 \<le> d"
  using sigm_pos [of distance p2 p3] by (auto simp add: dend_density_def pow10_ok)

lemma dend_other:
  assumes "mech \<notin> {''naf'', ''kaf'', ''kas'', ''can'', ''cav32'', ''cav33''}"
    and "(case args of [] \<Rightarrow> False | p0 # rest \<Rightarrow> p0 \<le> p0_limit)" and "0 \<le> peak"
  shows "\<exists>d. dend_density distance mech args (Fin peak) = Inr (Fin d) \<and> 0 \<le> d"
proof -
  from args1_shape [where args = args and P = "\<lambda>p0. p0 \<le> p0_limit", OF assms(2)]
  obtain p0 rest where "args = p0 # rest" "p0 \<le> p0_limit" by blast
  with assms(1,3) show ?thesis by (simp add: dend_density_def pow10_ok)
qed

lemma dend_density_nonneg:
  assumes v: "valid_density_input km ''dend'' mech args" and p: "0 \<le> peak"
  shows "\<exists>d. dend_density distance mech args (Fin peak) = Inr (Fin d) \<and> 0 \<le> d"
proof -
  consider (naf) "mech = ''naf''" | (can) "mech = ''can''" | (kaf) "mech = ''kaf''"
    | (kas) "mech = ''kas''" | (cav) "mech = ''cav32'' \<or> mech = ''cav33''"
    | (other) "mech \<notin> {''naf'', ''kaf'', ''kas'', ''can'', ''cav32'', ''cav33''}"
    by auto
  then show ?thesis
  proof cases
    case naf
    with v obtain p0 p1 p2 p3 where "args = [p0, p1, p2, p3]" "p0 \<le> p0_limit" "p1 \<le> 1" "p3 \<noteq> 0"
      using args4_shape [where args = args and P = "\<lambda>p0 p1 p2 p3. p0 \<le> p0_limit \<and> p1 \<le> 1 \<and> p3 \<noteq> 0"]
      by (auto simp add: valid_density_input_def)
    with naf p show ?thesis using dend_naf by simp
  next
    case can
    with v obtain p0 p1 p2 p3 where "args = [p0, p1, p2, p3]" "p0 \<le> p0_limit" "p1 \<le> 1" "p3 \<noteq> 0"
      using args4_shape [where args = args and P = "\<lambda>p0 p1 p2 p3. p0 \<le> p0_limit \<and> p1 \<le> 1 \<and> p3 \<noteq> 0"]
      by (auto simp add: valid_density_input_def)
    with can show ?thesis using dend_can by simp
  next
    case kaf
    with v obtain p0 p1 p2 p3 where "args = [p0, p1, p2, p3]" "p0 \<le> p0_limit" "- 1 \<le> p1" "p3 \<noteq> 0"
      using args4_shape [where args = args and P = "\<lambda>p0 p1 p2 p3. p0 \<le> p0_limit \<and> - 1 \<le> p1 \<and> p3 \<noteq> 0"]
      by (auto simp add: valid_density_input_def)
    with kaf p show ?thesis using dend_kaf by simp
  next
    case kas
    with v obtain p0 p2 p3 where "args = [p0, p2, p3]" "p0 \<le> p0_limit" "p3 \<noteq> 0"
      using args3_shape [where args = args and P = "\<lambda>p0 p2 p3. p0 \<le> p0_limit \<and> p3 \<noteq> 0"]
      by (auto simp add: valid_density_input_def)
    with kas p show ?thesis using dend_kas by simp
  next
    case cav
    with v obtain p0 p2 p3 where "args = [p0, p2, p3]" "p0 \<le> p0_limit" "p3 \<noteq> 0"
      using args3_shape [where args = args and P = "\<lambda>p0 p2 p3. p0 \<le> p0_limit \<and> p3 \<noteq> 0"]
      by (auto simp add: valid_density_input_def)
    with cav show ?thesis using dend_cav by simp
  next
    case other
    with v have "(case args of [] \<Rightarrow> False | p0 # rest \<Rightarrow> p0 \<le> p0_limit)"
      by (simp add: valid_density_input_def)
    with other p show ?thesis by (intro dend_other)
  qed
qed

text \<open>
  The branches outside the dendrites, for the file whose axonal branch tests
  the name \<open>km\<close>: \<open>f\<close> is \<open>raw_density\<close> or \<open>raw_density_msn\<close>.
\<close>

lemma other_density_nonneg:
  assumes v: "valid_density_input km compartment mech args" and p: "0 \<le> peak"
    and nd: "compartment \<noteq> ''dend''"
  shows "\<exists>d. (if compartment = ''axon'' then
               (if mech = ''kas'' \<or> mech = km then uniform_fun distance args (Fin peak)
                else if mech = ''naf'' then step_fun distance args (Fin peak)
                else Inl UnboundLocalError)
             else if compartment = ''soma'' then uniform_fun distance args (Fin peak)
             else Inl UnboundLocalError) = Inr (Fin d) \<and> 0 \<le> d"
proof -
  from v nd consider (axon) "compartment = ''axon''" | (soma) "compartment = ''soma''"
    by (auto simp add: valid_density_input_def split: if_splits)
  then show ?thesis
  proof cases
    case soma
    with v have "(case args of [] \<Rightarrow> False | p0 # rest \<Rightarrow> p0 \<le> p0_limit)"
      by (simp add: valid_density_input_def)
    from uniform_fun_nonneg [OF this p, of distance] soma show ?thesis by simp
  next
    case axon
    with v consider (uni) "mech = ''kas'' \<or> mech = km"
      | (naf) "mech \<noteq> ''kas''" "mech \<noteq> km" "mech = ''naf''"
      by (auto simp add: valid_density_input_def split: if_splits)
    then show ?thesis
    proof cases
      case uni
      with v axon have "(case args of [] \<Rightarrow> False | p0 # rest \<Rightarrow> p0 \<le> p0_limit)"
        by (auto simp add: valid_density_input_def)
      from uniform_fun_nonneg [OF this p, of distance] axon uni show ?thesis by auto
    next
      case naf
      with v axon obtain p0 p1 p2 p3 where "args = [p0, p1, p2, p3]" "0 \<le> p0" "0 \<le> p1"
        using args4_shape [where args = args and P = "\<lambda>p0 p1 p2 p3. 0 \<le> p0 \<and> 0 \<le> p1"]
        by (auto simp add: valid_density_input_def)
      with axon naf p show ?thesis by simp
    qed
  qed
qed

lemma raw_density_nonneg:
  assumes v: "valid_density_input ''km'' compartment mech args" and p: "0 \<le> peak"
  shows "\<exists>d. raw_density distance (compartment, mech, args, Fin peak) = Inr (Fin d) \<and> 0 \<le> d"
proof (cases "compartment = ''dend''")
  case True
  with dend_density_nonneg [of "''km''" mech args peak distance] v p show ?thesis
    by (simp add: raw_density_def)
next
  case False
  with other_density_nonneg [OF v p False, of distance] show ?thesis
    by (simp add: raw_density_def)
qed

lemma raw_density_msn_nonneg:
  assumes v: "valid_density_input ''Im'' compartment mech args" and p: "0 \<le> peak"
  shows "\<exists>d. raw_density_msn distance (compartment, mech, args, Fin peak) = Inr (Fin d) \<and> 0 \<le> d"
proof (cases "compartment = ''dend''")
  case True
  with dend_density_nonneg [of "''Im''" mech args peak distance] v p show ?thesis
    by (simp add: raw_density_msn_def)
next
  case False
  with other_density_nonneg [OF v p False, of distance] show ?thesis
    by (simp add: raw_density_msn_def)
qed

lemma assert_nonneg_value: "0 \<le> d \<Longrightarrow> assert_nonneg (Inr (Fin d)) = Inr d"
  by (simp add: assert_nonneg_def)

text \<open>
  C2. For every compartment and mechanism of the dispatch table, shape arguments
  within the ranges of \<open>valid_density_input\<close> and a peak value from 0 to
  \<open>peak_limit\<close>, \<open>get_channel_density\<close> returns a value, and the value is
  not negative: the assertion on the density does not fire. This holds for the
  function of \<open>src/src/msnmodel/cell.py\<close>, whose axonal table is
  \<open>kas\<close>, \<open>km\<close>, \<open>naf\<close>, and for the function of \<open>src/msn/cell.py\<close>,
  whose axonal table is \<open>kas\<close>, \<open>Im\<close>, \<open>naf\<close>.
\<close>

theorem get_channel_density_nonneg:
  assumes "0 \<le> peak" and "peak \<le> peak_limit"
  shows "(valid_density_input ''km'' compartment mech args \<longrightarrow>
            (\<exists>d. get_channel_density distance (compartment, mech, args, Fin peak) = Inr d
                \<and> 0 \<le> d))
       \<and> (valid_density_input ''Im'' compartment mech args \<longrightarrow>
            (\<exists>d. get_channel_density_msn distance (compartment, mech, args, Fin peak) = Inr d
                \<and> 0 \<le> d))"
proof (intro conjI impI)
  assume "valid_density_input ''km'' compartment mech args"
  from raw_density_nonneg [OF this assms(1), of distance] obtain d where
    "raw_density distance (compartment, mech, args, Fin peak) = Inr (Fin d)" "0 \<le> d" by blast
  then show "\<exists>d. get_channel_density distance (compartment, mech, args, Fin peak) = Inr d \<and> 0 \<le> d"
    by (simp add: get_channel_density_def assert_nonneg_value)
next
  assume "valid_density_input ''Im'' compartment mech args"
  from raw_density_msn_nonneg [OF this assms(1), of distance] obtain d where
    "raw_density_msn distance (compartment, mech, args, Fin peak) = Inr (Fin d)" "0 \<le> d" by blast
  then show "\<exists>d. get_channel_density_msn distance (compartment, mech, args, Fin peak) = Inr d
      \<and> 0 \<le> d"
    by (simp add: get_channel_density_msn_def assert_nonneg_value)
qed

theorem get_channel_density_nonneg_witness:
  "(0::real) \<le> 2 \<and> 2 \<le> peak_limit
   \<and> valid_density_input ''km'' ''dend'' ''naf'' [0, 1 / 2, 30, 10]
   \<and> (\<exists>d. get_channel_density 30 (''dend'', ''naf'', [0, 1 / 2, 30, 10], Fin 2) = Inr d \<and> 0 \<le> d)
   \<and> valid_density_input ''Im'' ''axon'' ''Im'' [0]
   \<and> (\<exists>d. get_channel_density_msn 30 (''axon'', ''Im'', [0], Fin 2) = Inr d \<and> 0 \<le> d)"
proof -
  have h: "(0::real) \<le> 2" "2 \<le> peak_limit" by (simp_all add: peak_limit_def)
  have v1: "valid_density_input ''km'' ''dend'' ''naf'' [0, 1 / 2, 30, 10]"
    by (simp add: valid_density_input_def p0_limit_def)
  have v2: "valid_density_input ''Im'' ''axon'' ''Im'' [0]"
    by (simp add: valid_density_input_def p0_limit_def)
  from get_channel_density_nonneg [OF h, of "''dend''" "''naf''" "[0, 1 / 2, 30, 10]" 30] v1
  have r1: "\<exists>d. get_channel_density 30 (''dend'', ''naf'', [0, 1 / 2, 30, 10], Fin 2) = Inr d \<and> 0 \<le> d"
    by (elim conjE) (erule mp)
  from get_channel_density_nonneg [OF h, of "''axon''" "''Im''" "[0]" 30] v2
  have r2: "\<exists>d. get_channel_density_msn 30 (''axon'', ''Im'', [0], Fin 2) = Inr d \<and> 0 \<le> d"
    by (elim conjE) (erule mp)
  from h v1 r1 v2 r2 show ?thesis by (intro conjI)
qed

text \<open>
  The two files disagree on the third axonal name: each leaves \<open>density\<close>
  unbound for the name of the other, and a power beyond the largest float
  raises in both.
\<close>

lemma axon_name_differs:
  "get_channel_density distance (''axon'', ''Im'', [0], Fin 1) = Inl UnboundLocalError"
  "get_channel_density_msn distance (''axon'', ''km'', [0], Fin 1) = Inl UnboundLocalError"
  by (simp_all add: get_channel_density_def get_channel_density_msn_def raw_density_def
      raw_density_msn_def assert_nonneg_def)

lemma power_beyond_float_max:
  "get_channel_density distance (''soma'', ''naf'', [400], Fin 1) = Inl OverflowError"
  "get_channel_density_msn distance (''soma'', ''naf'', [400], Fin 1) = Inl OverflowError"
  by (simp_all add: get_channel_density_def get_channel_density_msn_def raw_density_def
      raw_density_msn_def assert_nonneg_def pow10_def float_max_def)

section \<open>Properties of the parameter store\<close>

lemma append_gbar_shape:
  "\<exists>g. append_gbar conductances (c, m, a) = (c, m, a, g)"
  by (simp add: append_gbar_def split: list.splits)

lemma append_gbar_fields:
  "append_gbar conductances line = (c, m, a, g) \<Longrightarrow> line = (c, m, a)"
  by (cases line) (auto simp add: append_gbar_def split: list.splits)

lemma append_gbar_missing:
  "gbar_rows conductances m c = [] \<Longrightarrow> append_gbar conductances (c, m, a) = (c, m, a, NaN)"
  by (simp add: append_gbar_def)

lemma mem_append_gbar:
  assumes "(c, m, a) \<in> set ls"
  shows "\<exists>g. (c, m, a, g) \<in> set (map (append_gbar G) ls)"
proof -
  obtain g where "append_gbar G (c, m, a) = (c, m, a, g)"
    using append_gbar_shape by blast
  with assms have "(c, m, a, g) \<in> append_gbar G ` set ls"
    by (metis image_eqI)
  then show ?thesis by (simp only: set_map) blast
qed

lemma back_append_gbar:
  assumes "(c, m, a, g) \<in> set (map (append_gbar G) ls)"
  shows "(c, m, a) \<in> set ls \<and> append_gbar G (c, m, a) = (c, m, a, g)"
proof -
  from assms have "(c, m, a, g) \<in> append_gbar G ` set ls" by (simp only: set_map)
  then obtain line where l: "line \<in> set ls" "append_gbar G line = (c, m, a, g)"
    by (elim imageE) simp
  then have "line = (c, m, a)" using append_gbar_fields by blast
  with l show ?thesis by simp
qed

text \<open>The lines of shape arguments, before the peak values are appended.\<close>

lemma get_density_params_returns:
  assumes "mp_params self cell_type = Some by_index" and "by_index cell_index = Some entry"
    and "density_params entry ''sk'' = Some sk_args"
    and "density_params entry ''kir'' = Some kir_args"
  shows "get_density_params self cell_type cell_index =
    Inr (map (append_gbar (get_gbar self cell_type))
      (map (\<lambda>mech. (''dend'', mech,
              (case density_params entry mech of Some args \<Rightarrow> args | None \<Rightarrow> [0]))) dend_mechs
       @ map (\<lambda>mech. (''soma'', mech, [0])) soma_default_mechs
       @ [(''soma'', ''sk'', sk_args), (''soma'', ''kir'', kir_args)]
       @ axon_lines))"
  using assms by (simp add: get_density_params_def Let_def)


lemma soma_default_entry:
  assumes "mp_params self cell_type = Some by_index" and "by_index cell_index = Some entry"
    and "density_params entry ''sk'' = Some sk_args"
    and "density_params entry ''kir'' = Some kir_args"
    and m: "mech \<in> set soma_default_mechs"
    and r: "get_density_params self cell_type cell_index = Inr ps"
  shows "\<exists>g. (''soma'', mech, [0], g) \<in> set ps"
proof -
  let ?lines = "map (\<lambda>mech. (''dend'', mech,
              (case density_params entry mech of Some args \<Rightarrow> args | None \<Rightarrow> [0]))) dend_mechs
       @ map (\<lambda>mech. (''soma'', mech, [0])) soma_default_mechs
       @ [(''soma'', ''sk'', sk_args), (''soma'', ''kir'', kir_args)]
       @ axon_lines"
  have "ps = map (append_gbar (get_gbar self cell_type)) ?lines"
    using r get_density_params_returns [OF assms(1-4)] by simp
  moreover from m have
    "(''soma'', mech, [0::real]) \<in> (\<lambda>mech. (''soma'', mech, [0])) ` set soma_default_mechs"
    by (rule imageI)
  then have "(''soma'', mech, [0]) \<in> set ?lines"
    by (simp only: set_append set_map Un_iff) simp
  ultimately show ?thesis using mem_append_gbar by blast
qed



lemma uniform_fun_nan: "uniform_fun d a NaN \<noteq> Inr (Fin x)"
  by (cases a) (simp_all split: sum.splits)

lemma step_fun_nan: "step_fun d a NaN \<noteq> Inr (Fin x)"
  by (induct d a "NaN" rule: step_fun.induct) (simp_all add: Let_def)

lemma dend_density_nan:
  assumes "m \<noteq> ''can''" "m \<noteq> ''cav32''" "m \<noteq> ''cav33''"
  shows "dend_density d m a NaN \<noteq> Inr (Fin x)"
  using assms uniform_fun_nan [of d a x]
  by (simp add: dend_density_def split: list.splits sum.splits)

lemma nan_peak_density:
  assumes "get_channel_density d (c, m, a, NaN) = Inr v"
  shows "c = ''dend'' \<and> (m = ''can'' \<or> m = ''cav32'' \<or> m = ''cav33'')"
proof (rule ccontr)
  assume n: "\<not> (c = ''dend'' \<and> (m = ''can'' \<or> m = ''cav32'' \<or> m = ''cav33''))"
  have "raw_density d (c, m, a, NaN) \<noteq> Inr (Fin x)" for x
    using n uniform_fun_nan [of d a x] step_fun_nan [of d a x] dend_density_nan [of m d a x]
    by (auto simp add: raw_density_def)
  with assms show False
    by (simp add: get_channel_density_def assert_nonneg_def
        split: sum.splits pyfloat.splits if_splits)
qed

text \<open>
  C3. For every entry of the list that \<open>get_density_params\<close> returns whose
  selection of rows in the conductance table is empty, the peak value is NaN;
  the function returns the list and raises nothing for it. The NaN
  reaches the density calculation: \<open>get_channel_density\<close> on such an entry
  returns no value, unless the entry is one of the dendritic profiles that do
  not use the peak (\<open>can\<close>, \<open>cav32\<close>, \<open>cav33\<close>).
\<close>

theorem get_density_params_missing_peak_nan:
  assumes "mp_params self cell_type = Some by_index" and "by_index cell_index = Some entry"
    and "density_params entry ''sk'' = Some sk_args"
    and "density_params entry ''kir'' = Some kir_args"
  shows "\<exists>ps. get_density_params self cell_type cell_index = Inr ps
    \<and> (\<forall>(c, m, a, g) \<in> set ps.
          gbar_rows (get_gbar self cell_type) m c = [] \<longrightarrow>
            g = NaN
          \<and> (\<forall>d v. get_channel_density d (c, m, a, g) = Inr v \<longrightarrow>
                c = ''dend'' \<and> (m = ''can'' \<or> m = ''cav32'' \<or> m = ''cav33'')))"
proof -
  let ?G = "get_gbar self cell_type"
  let ?lines = "map (\<lambda>mech. (''dend'', mech,
              (case density_params entry mech of Some args \<Rightarrow> args | None \<Rightarrow> [0]))) dend_mechs
       @ map (\<lambda>mech. (''soma'', mech, [0])) soma_default_mechs
       @ [(''soma'', ''sk'', sk_args), (''soma'', ''kir'', kir_args)]
       @ axon_lines"
  let ?ps = "map (append_gbar ?G) ?lines"
  have ret: "get_density_params self cell_type cell_index = Inr ?ps"
    by (rule get_density_params_returns [OF assms])
  have nan: "\<forall>(c, m, a, g) \<in> set ?ps.
          gbar_rows ?G m c = [] \<longrightarrow>
            g = NaN
          \<and> (\<forall>d v. get_channel_density d (c, m, a, g) = Inr v \<longrightarrow>
                c = ''dend'' \<and> (m = ''can'' \<or> m = ''cav32'' \<or> m = ''cav33''))"
  proof (clarify)
    fix c m a g
    assume mem: "(c, m, a, g) \<in> set ?ps" and empty: "gbar_rows ?G m c = []"
    from mem have "append_gbar ?G (c, m, a) = (c, m, a, g)"
      using back_append_gbar by blast
    with empty have g: "g = NaN" by (simp add: append_gbar_missing)
    show "g = NaN \<and> (\<forall>d v. get_channel_density d (c, m, a, g) = Inr v \<longrightarrow>
                c = ''dend'' \<and> (m = ''can'' \<or> m = ''cav32'' \<or> m = ''cav33''))"
      using g nan_peak_density by blast
  qed
  show ?thesis by (rule exI [of _ ?ps]) (intro conjI ret nan)
qed

theorem get_density_params_missing_peak_nan_witness:
  "\<exists>ps. get_density_params
      \<lparr>mp_params = [''imsn'' \<mapsto> [3 \<mapsto> \<lparr>rheobase = 1 / 10,
          density_params = [''sk'' \<mapsto> [0], ''kir'' \<mapsto> [1 / 2]]\<rparr>]],
       mp_conductances = [\<lparr>cr_mechanism = ''naf'', cr_compartment = ''soma'',
                            cr_cell = ''dmsn'', cr_value = Fin 9\<rparr>]\<rparr> ''imsn'' 3 = Inr ps
    \<and> (''soma'', ''naf'', [0], NaN) \<in> set ps"
proof -
  let ?entry = "\<lparr>rheobase = 1 / 10,
          density_params = [''sk'' \<mapsto> [0], ''kir'' \<mapsto> [1 / 2]]\<rparr>"
  let ?P = "\<lparr>mp_params = [''imsn'' \<mapsto> [3 \<mapsto> ?entry]],
       mp_conductances = [\<lparr>cr_mechanism = ''naf'', cr_compartment = ''soma'',
                            cr_cell = ''dmsn'', cr_value = Fin 9\<rparr>]\<rparr>"
  have h1: "mp_params ?P ''imsn'' = Some [3 \<mapsto> ?entry]" by simp
  have h2: "[3 \<mapsto> ?entry] (3::int) = Some ?entry" by simp
  have h3: "density_params ?entry ''sk'' = Some [0]" by simp
  have h4: "density_params ?entry ''kir'' = Some [1 / 2]" by simp
  have e: "gbar_rows (get_gbar ?P ''imsn'') ''naf'' ''soma'' = []"
    by (simp add: gbar_rows_def get_gbar_def)
  from get_density_params_missing_peak_nan [OF h1 h2 h3 h4] obtain ps where
    r: "get_density_params ?P ''imsn'' 3 = Inr ps"
    and n: "\<forall>(c, m, a, g) \<in> set ps.
          gbar_rows (get_gbar ?P ''imsn'') m c = [] \<longrightarrow>
            g = NaN
          \<and> (\<forall>d v. get_channel_density d (c, m, a, g) = Inr v \<longrightarrow>
                c = ''dend'' \<and> (m = ''can'' \<or> m = ''cav32'' \<or> m = ''cav33''))"
    by blast
  have "''naf'' \<in> set soma_default_mechs" by (simp add: soma_default_mechs_def)
  from soma_default_entry [OF h1 h2 h3 h4 this r]
  obtain g where m: "(''soma'', ''naf'', [0], g) \<in> set ps" ..
  with n e have "g = NaN" by blast
  with r m show ?thesis by blast
qed

section \<open>Properties of the cell\<close>

lemma py_int_nonneg: "0 \<le> x \<Longrightarrow> py_int x = \<lfloor>x\<rfloor>"
  by (simp add: py_int_def)

lemma discretise_axon:
  "str_in ''axon'' (sec_name sec) \<Longrightarrow> nseg (discretise sec) = 2"
  by (simp add: discretise_def)

lemma discretise_other:
  assumes "\<not> str_in ''axon'' (sec_name sec)" and "0 \<le> L sec"
  shows "nseg (discretise sec) = 2 * \<lfloor>L sec / 40\<rfloor> + 1"
proof -
  from assms(2) have "0 \<le> L sec / 40" by simp
  then have "py_int (L sec / 40) = \<lfloor>L sec / 40\<rfloor>" by (rule py_int_nonneg)
  with assms(1) show ?thesis by (simp add: discretise_def)
qed

lemma discretise_keeps: "sec_name (discretise sec) = sec_name sec \<and> L (discretise sec) = L sec"
  by (simp add: discretise_def)

lemma odd_count: "0 \<le> (k::int) \<Longrightarrow> odd (2 * k + 1) \<and> 1 \<le> 2 * k + 1"
  by simp

text \<open>
  C7. After \<open>_setup_morphology\<close> (which succeeds when the importer found one
  soma), every section whose name contains \<open>axon\<close> has 2 segments, and every
  other section of length \<open>L \<ge> 0\<close> has \<open>2 * floor(L / 40) + 1\<close> segments, a
  count that is odd and at least 1.
\<close>

theorem setup_morphology_nseg:
  assumes "soma self = SomaList [i]"
  shows "\<exists>self'. setup_morphology self = Inr self'
    \<and> (\<forall>sec \<in> set (all_secs self').
          (str_in ''axon'' (sec_name sec) \<longrightarrow> nseg sec = 2)
        \<and> (\<not> str_in ''axon'' (sec_name sec) \<and> 0 \<le> L sec \<longrightarrow>
              nseg sec = 2 * \<lfloor>L sec / 40\<rfloor> + 1 \<and> odd (nseg sec) \<and> 1 \<le> nseg sec))"
proof -
  let ?self' = "self\<lparr>soma := SomaSec i, all_secs := map discretise (all_secs self)\<rparr>"
  have ret: "setup_morphology self = Inr ?self'"
    using assms by (simp add: setup_morphology_def)
  have secs: "\<forall>sec \<in> set (all_secs ?self').
          (str_in ''axon'' (sec_name sec) \<longrightarrow> nseg sec = 2)
        \<and> (\<not> str_in ''axon'' (sec_name sec) \<and> 0 \<le> L sec \<longrightarrow>
              nseg sec = 2 * \<lfloor>L sec / 40\<rfloor> + 1 \<and> odd (nseg sec) \<and> 1 \<le> nseg sec)"
  proof
    fix sec assume "sec \<in> set (all_secs ?self')"
    then obtain s0 where s0: "sec = discretise s0" by auto
    have keep: "sec_name sec = sec_name s0" "L sec = L s0"
      using s0 discretise_keeps by simp_all
    have a: "str_in ''axon'' (sec_name sec) \<longrightarrow> nseg sec = 2"
      using s0 keep discretise_axon by simp
    have b: "nseg sec = 2 * \<lfloor>L sec / 40\<rfloor> + 1 \<and> odd (nseg sec) \<and> 1 \<le> nseg sec"
      if n: "\<not> str_in ''axon'' (sec_name sec)" and l: "0 \<le> L sec"
    proof -
      from n l keep have "nseg sec = 2 * \<lfloor>L sec / 40\<rfloor> + 1"
        using s0 discretise_other [of s0] by simp
      moreover from l have "0 \<le> \<lfloor>L sec / 40\<rfloor>" by simp
      ultimately show ?thesis using odd_count by simp
    qed
    from a b show "(str_in ''axon'' (sec_name sec) \<longrightarrow> nseg sec = 2)
        \<and> (\<not> str_in ''axon'' (sec_name sec) \<and> 0 \<le> L sec \<longrightarrow>
              nseg sec = 2 * \<lfloor>L sec / 40\<rfloor> + 1 \<and> odd (nseg sec) \<and> 1 \<le> nseg sec)"
      by blast
  qed
  show ?thesis by (rule exI [of _ ?self']) (intro conjI ret secs)
qed

lemma setup_example:
  "setup_morphology
      \<lparr>msn_type = ''dmsn'',
       all_secs = [\<lparr>sec_name = ''soma[0]'', L = 12, nseg = 1, segs = []\<rparr>,
                   \<lparr>sec_name = ''axon[0]'', L = 100, nseg = 1, segs = []\<rparr>,
                   \<lparr>sec_name = ''dend[0]'', L = 95, nseg = 1, segs = []\<rparr>],
       soma = SomaList [0], dend = [2], bg_noise = []\<rparr>
   = Inr \<lparr>msn_type = ''dmsn'',
       all_secs = [\<lparr>sec_name = ''soma[0]'', L = 12, nseg = 1, segs = []\<rparr>,
                   \<lparr>sec_name = ''axon[0]'', L = 100, nseg = 2, segs = []\<rparr>,
                   \<lparr>sec_name = ''dend[0]'', L = 95, nseg = 5, segs = []\<rparr>],
       soma = SomaSec 0, dend = [2], bg_noise = []\<rparr>"
  by (simp add: setup_morphology_def discretise_def py_int_def)

theorem setup_morphology_nseg_witness:
  "\<exists>self'. setup_morphology
      \<lparr>msn_type = ''dmsn'',
       all_secs = [\<lparr>sec_name = ''soma[0]'', L = 12, nseg = 1, segs = []\<rparr>,
                   \<lparr>sec_name = ''axon[0]'', L = 100, nseg = 1, segs = []\<rparr>,
                   \<lparr>sec_name = ''dend[0]'', L = 95, nseg = 1, segs = []\<rparr>],
       soma = SomaList [0], dend = [2], bg_noise = []\<rparr> = Inr self'
    \<and> map nseg (all_secs self') = [1, 2, 5]"
proof -
  let ?c = "\<lparr>msn_type = ''dmsn'',
       all_secs = [\<lparr>sec_name = ''soma[0]'', L = 12, nseg = 1, segs = []\<rparr>,
                   \<lparr>sec_name = ''axon[0]'', L = 100, nseg = 1, segs = []\<rparr>,
                   \<lparr>sec_name = ''dend[0]'', L = 95, nseg = 1, segs = []\<rparr>],
       soma = SomaList [0], dend = [2], bg_noise = []\<rparr>"
  have h: "soma ?c = SomaList [0]" by simp
  from setup_morphology_nseg [OF h] obtain self' where
    r: "setup_morphology ?c = Inr self'" by (elim exE conjE)
  with setup_example have "map nseg (all_secs self') = [1, 2, 5]" by auto
  with r show ?thesis by (intro exI conjI)
qed

subsection \<open>Background noise\<close>

lemma remove_bg_noise_empty: "bg_noise (remove_bg_noise self) = []"
  by (simp add: remove_bg_noise_def)

lemma remove_bg_noise_type: "msn_type (remove_bg_noise self) = msn_type self"
  by (simp add: remove_bg_noise_def)

lemma gaba_conductance_zero: "gaba_conductance g (Some 0) = gaba_conductance g None"
  by (simp add: gaba_conductance_def)

lemma gaba_conductance_none: "gaba_conductance g None = g * 5"
  by (simp add: gaba_conductance_def)

lemma gaba_conductance_some: "v \<noteq> 0 \<Longrightarrow> gaba_conductance g (Some v) = g * 3 * v"
  by (simp add: gaba_conductance_def)

lemma bg_loop_zero_scale:
  "bg_loop gbase gaba_freq glut_freq ampa_sf nmda_sf (Some 0) delays indx secs acc =
   bg_loop gbase gaba_freq glut_freq ampa_sf nmda_sf None delays indx secs acc"
proof (induction secs arbitrary: indx acc)
  case Nil
  show ?case by simp
next
  case (Cons sec rest)
  show ?case
    by (simp only: bg_loop.simps gaba_conductance_zero Cons.IH)
qed

lemma bg_loop_step:
  assumes "bg_loop (Some g) gaba_freq glut_freq ampa_sf nmda_sf gaba_sf delays indx (sec # rest) acc
             = Inr out"
  shows "\<exists>new. (\<forall>line \<in> set new. noise_weight_ok g gaba_sf line)
     \<and> bg_loop (Some g) gaba_freq glut_freq ampa_sf nmda_sf gaba_sf delays (Suc indx) rest (acc @ new)
         = Inr out"
  using assms
  apply (simp add: synaptic_input_def Let_def split: if_splits)
  apply (rule exI, rule conjI [rotated], assumption, simp add: noise_weight_ok_def)+
  done

lemma bg_loop_weights:
  assumes "bg_loop (Some g) gaba_freq glut_freq ampa_sf nmda_sf gaba_sf delays indx secs acc = Inr out"
    and "\<forall>line \<in> set acc. noise_weight_ok g gaba_sf line"
  shows "\<forall>line \<in> set out. noise_weight_ok g gaba_sf line"
  using assms
proof (induction secs arbitrary: indx acc)
  case Nil
  then show ?case by simp
next
  case (Cons sec rest)
  from bg_loop_step [OF Cons.prems(1)] obtain new where
    new: "\<forall>line \<in> set new. noise_weight_ok g gaba_sf line"
    and rec: "bg_loop (Some g) gaba_freq glut_freq ampa_sf nmda_sf gaba_sf delays (Suc indx) rest
                (acc @ new) = Inr out"
    by blast
  from Cons.prems(2) new have "\<forall>line \<in> set (acc @ new). noise_weight_ok g gaba_sf line"
    by (simp only: set_append ball_Un)
  from Cons.IH [OF rec this] show ?case .
qed

lemma add_bg_noise_weights:
  assumes r: "add_bg_noise self gaba_freq glut_freq dend_only ampa_sf nmda_sf gaba_sf delays = Inr self'"
    and g: "gbase_of (msn_type self) = Some g"
  shows "\<forall>line \<in> set (bg_noise self'). noise_weight_ok g gaba_sf line"
proof -
  let ?secs = "if dend_only then filter (\<lambda>sec. str_in ''dend'' (sec_name sec)) (all_secs self)
               else all_secs self"
  from r g obtain out where
    l: "bg_loop (Some g) gaba_freq glut_freq ampa_sf nmda_sf gaba_sf delays 0 ?secs [] = Inr out"
    and s: "bg_noise self' = out"
    by (auto simp add: add_bg_noise_def Let_def remove_bg_noise_empty remove_bg_noise_type
        split: sum.splits)
  have "\<forall>line \<in> set []. noise_weight_ok g gaba_sf line" by simp
  from bg_loop_weights [OF l this] s show ?thesis by simp
qed

text \<open>
  C10. With \<open>gaba_scale_factor\<close> equal to 0, \<open>add_bg_noise\<close> does what it
  does without a scale factor, and every GABA connection of the result has the
  default weight, the base conductance times 5, not the weight 0.
\<close>

theorem add_bg_noise_zero_gaba_scale:
  "add_bg_noise self gaba_freq glut_freq dend_only ampa_sf nmda_sf (Some 0) delays
     = add_bg_noise self gaba_freq glut_freq dend_only ampa_sf nmda_sf None delays
   \<and> (\<forall>self' g. add_bg_noise self gaba_freq glut_freq dend_only ampa_sf nmda_sf (Some 0) delays
                   = Inr self'
         \<longrightarrow> gbase_of (msn_type self) = Some g
         \<longrightarrow> (\<forall>(syn, stim, con) \<in> set (bg_noise self').
                 syn_type syn = ''gaba'' \<longrightarrow> weight con = g * 5))"
proof (intro conjI allI impI)
  show "add_bg_noise self gaba_freq glut_freq dend_only ampa_sf nmda_sf (Some 0) delays
     = add_bg_noise self gaba_freq glut_freq dend_only ampa_sf nmda_sf None delays"
    by (simp add: add_bg_noise_def bg_loop_zero_scale)
next
  fix self' g
  assume r: "add_bg_noise self gaba_freq glut_freq dend_only ampa_sf nmda_sf (Some 0) delays
                   = Inr self'"
    and g: "gbase_of (msn_type self) = Some g"
  have "\<forall>line \<in> set (bg_noise self'). noise_weight_ok g (Some 0) line"
    by (rule add_bg_noise_weights [OF r g])
  then show "\<forall>(syn, stim, con) \<in> set (bg_noise self').
                 syn_type syn = ''gaba'' \<longrightarrow> weight con = g * 5"
    by (auto simp add: noise_weight_ok_def gaba_conductance_zero gaba_conductance_none)
qed

lemma add_bg_noise_default_example:
  "add_bg_noise
      \<lparr>msn_type = ''dmsn'',
       all_secs = [\<lparr>sec_name = ''dend[0]'', L = 95, nseg = 5, segs = []\<rparr>],
       soma = SomaSec 0, dend = [0], bg_noise = []\<rparr>
      4 12 False None None None []
   = Inr \<lparr>msn_type = ''dmsn'',
       all_secs = [\<lparr>sec_name = ''dend[0]'', L = 95, nseg = 5, segs = []\<rparr>],
       soma = SomaSec 0, dend = [0],
       bg_noise =
         [(\<lparr>syn_type = ''ampa'', syn_x = 1 / 2, syn_sec = ''dend[0]'', scale_factor = None\<rparr>,
           \<lparr>interval = 1000 / 12, number = 1000, start = 0, noise = 1\<rparr>,
           \<lparr>threshold = 1 / 10, delay = 0, weight = 3 / 10000\<rparr>),
          (\<lparr>syn_type = ''nmda'', syn_x = 1 / 2, syn_sec = ''dend[0]'', scale_factor = None\<rparr>,
           \<lparr>interval = 1000 / 12, number = 1000, start = 0, noise = 1\<rparr>,
           \<lparr>threshold = 1 / 10, delay = 0, weight = 3 / 10000\<rparr>),
          (\<lparr>syn_type = ''gaba'', syn_x = 1 / 10, syn_sec = ''dend[0]'', scale_factor = None\<rparr>,
           \<lparr>interval = 1000 / 4, number = 1000, start = 0, noise = 1\<rparr>,
           \<lparr>threshold = 1 / 10, delay = 0, weight = 15 / 10000\<rparr>)]\<rparr>"
  by (simp add: add_bg_noise_def remove_bg_noise_def gbase_of_def synaptic_input_def
      gaba_conductance_def Let_def)

theorem add_bg_noise_zero_gaba_scale_witness:
  "\<exists>self'. add_bg_noise
      \<lparr>msn_type = ''dmsn'',
       all_secs = [\<lparr>sec_name = ''dend[0]'', L = 95, nseg = 5, segs = []\<rparr>],
       soma = SomaSec 0, dend = [0], bg_noise = []\<rparr>
      4 12 False None None (Some 0) [] = Inr self'
    \<and> map (\<lambda>(syn, stim, con). (syn_type syn, weight con)) (bg_noise self')
        = [(''ampa'', 3 / 10000), (''nmda'', 3 / 10000), (''gaba'', 15 / 10000)]"
proof -
  let ?c = "\<lparr>msn_type = ''dmsn'',
       all_secs = [\<lparr>sec_name = ''dend[0]'', L = 95, nseg = 5, segs = []\<rparr>],
       soma = SomaSec 0, dend = [0], bg_noise = []\<rparr>"
  have "add_bg_noise ?c 4 12 False None None (Some 0) []
      = add_bg_noise ?c 4 12 False None None None []"
    using add_bg_noise_zero_gaba_scale [of ?c 4 12 False None None "[]"] by (rule conjunct1)
  then show ?thesis by (simp only: add_bg_noise_default_example) simp
qed

text \<open>
  C6. At the explicit scale factor 0 the GABA connection does not get the
  weight \<open>base * 3 * 0 = 0\<close>: on a dMSN with one dendrite the tracked
  connections are AMPA and NMDA with the base conductance \<open>0.0003\<close> and GABA
  with \<open>0.0003 * 5 = 0.0015\<close>.
\<close>

theorem add_bg_noise_explicit_zero_scale:
  "\<exists>self'. add_bg_noise
      \<lparr>msn_type = ''dmsn'',
       all_secs = [\<lparr>sec_name = ''dend[0]'', L = 95, nseg = 5, segs = []\<rparr>],
       soma = SomaSec 0, dend = [0], bg_noise = []\<rparr>
      4 12 False None None (Some 0) [] = Inr self'
    \<and> map (\<lambda>(syn, stim, con). (syn_type syn, weight con)) (bg_noise self')
        = [(''ampa'', 3 / 10000), (''nmda'', 3 / 10000), (''gaba'', 3 / 10000 * 5)]
    \<and> (3 / 10000 * 5 :: real) \<noteq> 3 / 10000 * 3 * 0"
  by (simp add: add_bg_noise_def remove_bg_noise_def gbase_of_def synaptic_input_def
      gaba_conductance_def Let_def)

text \<open>
  For a scale factor other than 0, and without one, the weights are the ones
  the documentation gives.
\<close>

lemma add_bg_noise_weights_documented:
  assumes r: "add_bg_noise self gaba_freq glut_freq dend_only ampa_sf nmda_sf gaba_sf delays = Inr self'"
    and g: "gbase_of (msn_type self) = Some g"
    and m: "(syn, stim, con) \<in> set (bg_noise self')"
  shows "(syn_type syn \<noteq> ''gaba'' \<longrightarrow> weight con = g)
    \<and> (syn_type syn = ''gaba'' \<and> gaba_sf = None \<longrightarrow> weight con = g * 5)
    \<and> (\<forall>v. syn_type syn = ''gaba'' \<and> gaba_sf = Some v \<and> v \<noteq> 0 \<longrightarrow> weight con = g * 3 * v)"
proof -
  from add_bg_noise_weights [OF r g] m have "noise_weight_ok g gaba_sf (syn, stim, con)"
    by (rule bspec)
  then show ?thesis
    by (auto simp add: noise_weight_ok_def gaba_conductance_def split: if_splits)
qed

section \<open>Properties of the modulation\<close>

lemma da_reset_mech:
  "intrinsic prm (oname mech) = Some factor \<Longrightarrow>
   damod (da_intrinsic_mech prm pl True mech) = 1 \<and> level (da_intrinsic_mech prm pl True mech) = 0"
  by (simp add: da_intrinsic_mech_def Let_def)

lemma ach_reset_mech:
  "intrinsic prm (oname mech) = Some factor \<Longrightarrow>
   damod (ach_intrinsic_mech prm [] True mech) = 0 \<and> lev2 (ach_intrinsic_mech prm [] True mech) = 1"
  by (simp add: ach_intrinsic_mech_def Let_def)

lemma da_reset_syn:
  "damod (da_set_syn factor key pl True syn) = 1 \<and> level (da_set_syn factor key pl True syn) = 0"
  by (simp add: da_set_syn_def Let_def)

lemma ach_reset_syn:
  "damod (ach_set_syn factor key pl True syn) = 0 \<and> lev2 (ach_set_syn factor key pl True syn) = 0"
  by (simp add: ach_set_syn_def Let_def)

text \<open>
  C1. The claim fails on a cell with one somatic segment that holds the
  mechanism \<open>naf\<close> and a GABA synapse, for both cell types and for every draw
  of the modulation factors. After \<open>Dopamine(cell)\<close> and \<open>reset()\<close> the
  mechanism and the synapse have \<open>level = 0\<close> but \<open>damod = 1\<close>. After
  \<open>Acetylcholine(cell)\<close> and \<open>reset('all')\<close> the synapse has
  \<open>damod = 0\<close> and \<open>lev2 = 0\<close>, but the mechanism has \<open>lev2 = 1\<close>.
\<close>

theorem reset_leaves_modulation_set:
  "let naf = \<lparr>oname = ''naf'', damod = 0, maxMod = 1, level = 0, max2 = 1, lev2 = 0,
              modShift = 0, level_play = None, lev2_play = None, modShift_play = None\<rparr>;
       gaba = \<lparr>oname = ''gaba[0]'', damod = 0, maxMod = 1, level = 0, max2 = 1, lev2 = 0,
              modShift = 0, level_play = None, lev2_play = None, modShift_play = None\<rparr>;
       msn = (\<lambda>cell_type.
         \<lparr>msn_type = cell_type,
          all_secs = [\<lparr>sec_name = ''soma[0]'', L = 12, nseg = 1,
                       segs = [\<lparr>seg_x = 1 / 2, mechs = [naf], point_procs = [gaba]\<rparr>]\<rparr>],
          soma = SomaSec 0, dend = [], bg_noise = []\<rparr>);
       after_da = (\<lambda>cell_type.
         case Dopamine_init rng (msn cell_type) ''no_axon'' True True True [] dt0 of
           Inl e \<Rightarrow> []
         | Inr m \<Rightarrow>
             concat (map (\<lambda>sec. concat (map (\<lambda>seg.
                 map (\<lambda>ob. (oname ob, damod ob, level ob)) (mechs seg @ point_procs seg))
               (segs sec))) (all_secs (cell (Dopamine_reset m)))));
       after_ach = (\<lambda>cell_type.
         case Acetylcholine_init rng (msn cell_type) ''all'' True True True (- 10) [] dt0 of
           Inl e \<Rightarrow> []
         | Inr m \<Rightarrow>
            (case Acetylcholine_reset m ''all'' of
               Inl e \<Rightarrow> []
             | Inr m' \<Rightarrow>
                 concat (map (\<lambda>sec. concat (map (\<lambda>seg.
                     map (\<lambda>ob. (oname ob, damod ob, lev2 ob)) (mechs seg @ point_procs seg))
                   (segs sec))) (all_secs (cell m')))))
   in after_da ''dmsn'' = [(''naf'', 1, 0), (''gaba[0]'', 1, 0)]
    \<and> after_da ''imsn'' = [(''naf'', 1, 0), (''gaba[0]'', 1, 0)]
    \<and> after_ach ''dmsn'' = [(''naf'', 0, 1), (''gaba[0]'', 0, 0)]
    \<and> after_ach ''imsn'' = [(''naf'', 0, 1), (''gaba[0]'', 0, 0)]"
  by (simp add: Dopamine_init_def Acetylcholine_init_def get_modulation_params_def
      select_sections_def on_segments_def Dopamine_reset_def Acetylcholine_reset_def
      da_modulate_instrinsic_def da_intrinsic_mech_def da_modulate_gaba_def
      da_modulate_glut_def da_set_syn_def ach_modulate_intrinsic_def ach_intrinsic_mech_def
      ach_modulate_gaba_def ach_modulate_glut_def ach_set_syn_def shift_kaf_def Let_def)

section \<open>Two calls on the same parameter object\<close>














































end
